theory Spec2Isabelle
  imports Complex_Main "HOL-Library.Word"
begin

section \<open>Data model of main.go\<close>

text \<open>
  Go's \<open>uint64\<close> is a 64-bit word: \<open>+\<close> and \<open>-\<close> wrap around, \<open>\<le>\<close> and \<open><\<close> compare
  the unsigned values.
\<close>

type_synonym uint64 = "64 word"

subsection \<open>time.Time\<close>

text \<open>
  A \<open>time.Time\<close> is held as the civil fields that \<open>now.Date()\<close>, \<open>time.Date\<close> and
  \<open>Format\<close> work with, together with the name of its location. Every time of the program
  is \<open>time.Now()\<close> or is built from one by \<open>getNextResetTime\<close>, so all of them lie in the
  host's local zone; the zone is taken to have one fixed offset, which makes the order of
  the instants the lexicographic order of the civil fields. The monotonic clock reading of
  \<open>time.Now()\<close> is not represented.
\<close>

record Time =
  Year :: int
  Month :: int
  Day :: int
  Hour :: int
  Minute :: int
  Second :: int
  Nanosecond :: int
  Location :: string


text \<open>
  \<open>time.Date(year, month, day, hour, min, sec, nsec, loc)\<close>. The library normalises
  arguments outside their usual ranges; \<open>getNextResetTime\<close>, its only caller, passes a
  month in 1..12, a day in 1..28 and zeros, for which nothing is normalised.
\<close>

definition Date :: "int \<Rightarrow> int \<Rightarrow> int \<Rightarrow> int \<Rightarrow> int \<Rightarrow> int \<Rightarrow> int \<Rightarrow> string \<Rightarrow> Time" where
  "Date y m d h mi s ns l =
     \<lparr>Year = y, Month = m, Day = d, Hour = h, Minute = mi, Second = s, Nanosecond = ns,
      Location = l\<rparr>"

text \<open>\<open>t.After(u)\<close>: the instant \<open>t\<close> is strictly later than \<open>u\<close>.\<close>

definition After :: "Time \<Rightarrow> Time \<Rightarrow> bool" where
  "After t u \<longleftrightarrow>
     Year u < Year t \<or> (Year u = Year t \<and>
    (Month u < Month t \<or> (Month u = Month t \<and>
    (Day u < Day t \<or> (Day u = Day t \<and>
    (Hour u < Hour t \<or> (Hour u = Hour t \<and>
    (Minute u < Minute t \<or> (Minute u = Minute t \<and>
    (Second u < Second t \<or> (Second u = Second t \<and>
     Nanosecond u < Nanosecond t)))))))))))"

text \<open>
  \<open>now.Format("2006-01")\<close>: the year zero-padded to four digits, a dash, the month
  zero-padded to two digits (the library's \<open>appendInt\<close> writes a minus sign before the
  padded digits of a negative number).
\<close>

fun digits :: "nat \<Rightarrow> string" where
  "digits n = (if n < 10 then [char_of (48 + n)] else digits (n div 10) @ [char_of (48 + n mod 10)])"

declare digits.simps [simp del]

definition appendInt :: "int \<Rightarrow> nat \<Rightarrow> string" where
  "appendInt x width =
     (let ds = digits (nat \<bar>x\<bar>)
      in (if x < 0 then ''-'' else []) @ replicate (width - length ds) (CHR ''0'') @ ds)"

definition Format_2006_01 :: "Time \<Rightarrow> string" where
  "Format_2006_01 t = appendInt (Year t) 4 @ ''-'' @ appendInt (Month t) 2"

subsection \<open>Config, TrafficStats, App\<close>

text \<open>
  \<open>MonthlyResetDay\<close> is a Go \<open>int\<close>; it is only compared and passed on, so it is an
  \<open>int\<close> here. \<open>WarningThresholdGB\<close> is a \<open>float64\<close>: it is held as the rational number
  the finite float denotes. \<open>CheckIntervalSeconds\<close> and \<open>DataDir\<close> only feed the ticker and
  the file path.
\<close>

record Config =
  MonthlyResetDay :: int
  NetworkInterface :: string
  TrafficMode :: string
  WarningThresholdGB :: rat
  CheckIntervalSeconds :: int
  DataDir :: string
  TelegramBotToken :: string
  TelegramChatIDs :: "int list"
  ServerName :: string
  ShutdownOnWarning :: bool

record TrafficStats =
  CurrentMonth :: string
  LastResetTime :: Time
  NextResetTime :: Time
  BytesIn :: uint64
  BytesOut :: uint64
  LastBytesIn :: uint64
  LastBytesOut :: uint64
  WarningsSentThisMonth :: bool

text \<open>
  \<open>Bot\<close> is a pointer that is nil when no token is configured. The mutex, the stop
  channel and the wait group of \<open>App\<close> carry no data.
\<close>

datatype BotAPI = BotAPI string

record App =
  Config :: Config
  Stats :: TrafficStats
  Bot :: "BotAPI option"

section \<open>The reset schedule\<close>

definition getNextResetTime :: "Time \<Rightarrow> int \<Rightarrow> Time" where
  "getNextResetTime now resetDay =
     (let year = Year now;
          month = Month now;
          resetDay = (if resetDay < 1 then 1 else if resetDay > 28 then 28 else resetDay);
          nextMonth = month + 1;
          nextYear = year;
          (nextMonth, nextYear) =
             (if nextMonth > 12 then (1, nextYear + 1) else (nextMonth, nextYear))
      in Date nextYear nextMonth resetDay 0 0 0 0 (Location now))"

section \<open>The world outside the program\<close>

text \<open>
  One call of \<open>updateTrafficStats\<close> or \<open>loadOrInitStats\<close> reads the interface counters
  once, reads the clock once, may send messages and may write the statistics file. What
  the outside returns to these calls is the \<open>World\<close> of the call; what the call does to
  the outside is a list of effects, in the order of the source.
\<close>

text \<open>The fields of gopsutil's \<open>IOCountersStat\<close> that the program reads.\<close>

record IOCountersStat =
  Name :: string
  BytesRecv :: uint64
  BytesSent :: uint64

text \<open>
  The errors the program returns: the error of \<open>net.IOCounters\<close>, the error made at the
  end of \<open>getCurrentTrafficBytes\<close> (it carries the interface name), the errors of reading,
  parsing, serialising and writing the statistics file, and the wrapping of a counter
  error by \<open>loadOrInitStats\<close>.
\<close>

datatype error =
    IOCountersError string
  | InterfaceNotFound string
  | ReadFileError
  | UnmarshalError
  | MarshalError
  | WriteFileError
  | GetTrafficFailed error

text \<open>
  \<open>ioutil.ReadFile(statsPath)\<close> followed by \<open>json.Unmarshal(data, &app.Stats)\<close>: the file is
  missing, cannot be read, or has contents that parse to statistics or fail to parse.
\<close>

datatype stats_file = NotExist | Unreadable | Contents "TrafficStats option"

text \<open>The three loops over \<open>TelegramChatIDs\<close> that call \<open>Bot.Send\<close>.\<close>

datatype pass = WarningPass | ShutdownPass | ReportPass

record World =
  IOCounters :: "error + IOCountersStat list"
  Now :: Time
  SendFails :: "pass \<Rightarrow> nat \<Rightarrow> bool"
  MarshalFails :: bool
  WriteFails :: bool
  StatsFile :: stats_file

text \<open>
  \<open>SendFails w p i\<close> says that \<open>Bot.Send\<close> returns an error for the recipient at
  position \<open>i\<close> of the list in loop \<open>p\<close>.
\<close>

datatype mode_description = OnlyIn | OnlyOut | MaxOfBoth | SumOfBoth | UnknownMode

text \<open>
  The two message texts are made by \<open>fmt.Sprintf\<close>; a message is held as the values
  that are formatted into it.
\<close>

datatype message =
    WarningMessage string uint64 rat
  | ReportMessage string string uint64 uint64 uint64 mode_description Time

datatype logline =
    LogWarnNoBot
  | LogWarnSent
  | LogSendFailed pass int
  | LogShutdown
  | LogReportNoBot
  | LogReportSent
  | LogUpdateFailed error

text \<open>
  \<open>Send c m ok\<close> is a call \<open>Bot.Send\<close> of message \<open>m\<close> to chat \<open>c\<close>, with \<open>ok\<close> when it
  returned no error. \<open>WriteFile s\<close> is the call \<open>ioutil.WriteFile\<close> with the JSON of
  \<open>s\<close>. \<open>PowerOff\<close> is the goroutine that sleeps ten seconds, syncs and powers the host
  off.
\<close>

datatype effect =
    Send int message bool
  | Log logline
  | WriteFile TrafficStats
  | PowerOff

section \<open>Reading the counters, saving the statistics\<close>

text \<open>The loop of \<open>getCurrentTrafficBytes\<close> over the statistics of all interfaces.\<close>

fun findInterface :: "IOCountersStat list \<Rightarrow> string \<Rightarrow> error + (uint64 \<times> uint64)" where
  "findInterface [] interfaceName = Inl (InterfaceNotFound interfaceName)"
| "findInterface (stat # stats) interfaceName =
     (if Name stat = interfaceName then Inr (BytesRecv stat, BytesSent stat)
      else findInterface stats interfaceName)"

definition getCurrentTrafficBytes ::
    "error + IOCountersStat list \<Rightarrow> string \<Rightarrow> error + (uint64 \<times> uint64)" where
  "getCurrentTrafficBytes ioCounters interfaceName =
     (case ioCounters of
        Inl err \<Rightarrow> Inl err
      | Inr stats \<Rightarrow> findInterface stats interfaceName)"

definition saveStats :: "TrafficStats \<Rightarrow> World \<Rightarrow> error option \<times> effect list" where
  "saveStats st w =
     (if MarshalFails w then (Some MarshalError, [])
      else if WriteFails w then (Some WriteFileError, [WriteFile st])
      else (None, [WriteFile st]))"

section \<open>Messages\<close>

text \<open>
  The switch on \<open>TrafficMode\<close> that computes \<open>totalTraffic\<close>, in \<open>updateTrafficStats\<close> and
  again in \<open>sendMonthlyReport\<close>. The variable is declared without a value, so it is 0 when
  no case matches.
\<close>

definition totalTraffic :: "string \<Rightarrow> uint64 \<Rightarrow> uint64 \<Rightarrow> uint64" where
  "totalTraffic mode bytesIn bytesOut =
     (if mode = ''in'' then bytesIn
      else if mode = ''out'' then bytesOut
      else if mode = ''max'' then (if bytesIn > bytesOut then bytesIn else bytesOut)
      else if mode = ''both'' then bytesIn + bytesOut
      else 0)"

definition getTrafficModeDescription :: "string \<Rightarrow> mode_description" where
  "getTrafficModeDescription mode =
     (if mode = ''in'' then OnlyIn
      else if mode = ''out'' then OnlyOut
      else if mode = ''max'' then MaxOfBoth
      else if mode = ''both'' then SumOfBoth
      else UnknownMode)"

text \<open>One loop \<open>for _, chatID := range TelegramChatIDs\<close>, from position \<open>i\<close> on.\<close>

fun sendAll :: "World \<Rightarrow> pass \<Rightarrow> nat \<Rightarrow> int list \<Rightarrow> message \<Rightarrow> effect list" where
  "sendAll w p i [] m = []"
| "sendAll w p i (chatID # chatIDs) m =
     (if SendFails w p i then [Send chatID m False, Log (LogSendFailed p chatID)]
      else [Send chatID m True])
     @ sendAll w p (Suc i) chatIDs m"

definition sendWarningMessage :: "App \<Rightarrow> World \<Rightarrow> uint64 \<Rightarrow> effect list" where
  "sendWarningMessage app w totalBytes =
     (if Bot app = None then [Log LogWarnNoBot]
      else
        let message = WarningMessage (ServerName (Config app)) totalBytes
                        (WarningThresholdGB (Config app))
        in sendAll w WarningPass 0 (TelegramChatIDs (Config app)) message
           @ [Log LogWarnSent]
           @ (if ShutdownOnWarning (Config app)
              then [Log LogShutdown]
                   @ sendAll w ShutdownPass 0 (TelegramChatIDs (Config app)) message
                   @ [PowerOff]
              else []))"

definition sendMonthlyReport :: "App \<Rightarrow> World \<Rightarrow> effect list" where
  "sendMonthlyReport app w =
     (if Bot app = None then [Log LogReportNoBot]
      else
        let totalTraffic = totalTraffic (TrafficMode (Config app))
                             (BytesIn (Stats app)) (BytesOut (Stats app));
            message = ReportMessage (ServerName (Config app)) (CurrentMonth (Stats app))
                        (BytesIn (Stats app)) (BytesOut (Stats app)) totalTraffic
                        (getTrafficModeDescription (TrafficMode (Config app)))
                        (NextResetTime (Stats app))
        in sendAll w ReportPass 0 (TelegramChatIDs (Config app)) message
           @ [Log LogReportSent])"

section \<open>The accounting update\<close>

text \<open>
  \<open>uint64(x)\<close> of a \<open>float64\<close>: the fraction is discarded. Go leaves the result open
  when the value does not fit; here it wraps. The three multiplications by 1024 that come
  before it scale a float by a power of two, which is exact short of overflow, so the
  product is the product of the rationals.
\<close>

definition uint64_of_float64 :: "rat \<Rightarrow> uint64" where
  "uint64_of_float64 x = word_of_int (if 0 \<le> x then \<lfloor>x\<rfloor> else \<lceil>x\<rceil>)"

text \<open>Lines 325 to 333: the deltas, the totals and the new baseline.\<close>

definition accumulate :: "TrafficStats \<Rightarrow> uint64 \<Rightarrow> uint64 \<Rightarrow> TrafficStats" where
  "accumulate st currentBytesIn currentBytesOut =
     (let inDelta = currentBytesIn - LastBytesIn st;
          outDelta = currentBytesOut - LastBytesOut st
      in st\<lparr>BytesIn := BytesIn st + inDelta,
            BytesOut := BytesOut st + outDelta,
            LastBytesIn := currentBytesIn,
            LastBytesOut := currentBytesOut\<rparr>)"

text \<open>Lines 335 to 360: the warning.\<close>

definition checkWarning :: "App \<Rightarrow> World \<Rightarrow> App \<times> effect list" where
  "checkWarning app w =
     (if \<not> WarningsSentThisMonth (Stats app) then
        let totalTraffic = totalTraffic (TrafficMode (Config app))
                             (BytesIn (Stats app)) (BytesOut (Stats app));
            warningThresholdBytes =
              uint64_of_float64 (WarningThresholdGB (Config app) * 1024 * 1024 * 1024)
        in if totalTraffic \<ge> warningThresholdBytes
           then (app\<lparr>Stats := (Stats app)\<lparr>WarningsSentThisMonth := True\<rparr>\<rparr>,
                 sendWarningMessage app w totalTraffic)
           else (app, [])
      else (app, []))"

text \<open>Lines 362 to 375: the monthly reset.\<close>

definition checkReset :: "App \<Rightarrow> World \<Rightarrow> App \<times> effect list" where
  "checkReset app w =
     (let now = Now w
      in if After now (NextResetTime (Stats app))
         then (app\<lparr>Stats := (Stats app)
                 \<lparr>CurrentMonth := Format_2006_01 now,
                  LastResetTime := now,
                  NextResetTime := getNextResetTime now (MonthlyResetDay (Config app)),
                  BytesIn := 0,
                  BytesOut := 0,
                  WarningsSentThisMonth := False\<rparr>\<rparr>,
               sendMonthlyReport app w)
         else (app, []))"

text \<open>
  \<open>updateTrafficStats\<close> returns its error, the application after the call and the effects
  of the call.
\<close>

definition updateTrafficStats :: "App \<Rightarrow> World \<Rightarrow> error option \<times> App \<times> effect list" where
  "updateTrafficStats app w =
     (case getCurrentTrafficBytes (IOCounters w) (NetworkInterface (Config app)) of
        Inl err \<Rightarrow> (Some err, app, [])
      | Inr (currentBytesIn, currentBytesOut) \<Rightarrow>
          let app1 = app\<lparr>Stats := accumulate (Stats app) currentBytesIn currentBytesOut\<rparr>;
              (app2, eff1) = checkWarning app1 w;
              (app3, eff2) = checkReset app2 w;
              (err, eff3) = saveStats (Stats app3) w
          in (err, app3, eff1 @ eff2 @ eff3))"

section \<open>Start-up\<close>

definition loadOrInitStats :: "App \<Rightarrow> World \<Rightarrow> error option \<times> App \<times> effect list" where
  "loadOrInitStats app w =
     (case StatsFile w of
        NotExist \<Rightarrow>
          let now = Now w;
              nextResetTime = getNextResetTime now (MonthlyResetDay (Config app))
          in (case getCurrentTrafficBytes (IOCounters w) (NetworkInterface (Config app)) of
                Inl err \<Rightarrow> (Some (GetTrafficFailed err), app, [])
              | Inr (bytesIn, bytesOut) \<Rightarrow>
                  let st = \<lparr>CurrentMonth = Format_2006_01 now,
                            LastResetTime = now,
                            NextResetTime = nextResetTime,
                            BytesIn = 0,
                            BytesOut = 0,
                            LastBytesIn = bytesIn,
                            LastBytesOut = bytesOut,
                            WarningsSentThisMonth = False\<rparr>;
                      (err, eff) = saveStats st w
                  in (err, app\<lparr>Stats := st\<rparr>, eff))
      | Unreadable \<Rightarrow> (Some ReadFileError, app, [])
      | Contents None \<Rightarrow> (Some UnmarshalError, app, [])
      | Contents (Some loaded) \<Rightarrow>
          let app = app\<lparr>Stats := loaded\<rparr>;
              now = Now w
          in if After now (NextResetTime (Stats app)) then
               let eff1 = sendMonthlyReport app w
               in (case getCurrentTrafficBytes (IOCounters w) (NetworkInterface (Config app)) of
                     Inl err \<Rightarrow> (Some (GetTrafficFailed err), app, eff1)
                   | Inr (bytesIn, bytesOut) \<Rightarrow>
                       let st = (Stats app)
                                  \<lparr>CurrentMonth := Format_2006_01 now,
                                   LastResetTime := now,
                                   NextResetTime :=
                                     getNextResetTime now (MonthlyResetDay (Config app)),
                                   BytesIn := 0,
                                   BytesOut := 0,
                                   LastBytesIn := bytesIn,
                                   LastBytesOut := bytesOut,
                                   WarningsSentThisMonth := False\<rparr>;
                           (err, eff2) = saveStats st w
                       in (err, app\<lparr>Stats := st\<rparr>, eff1 @ eff2))
             else (None, app, []))"

section \<open>The loop\<close>

text \<open>
  \<open>monitorTraffic\<close> selects between the ticker and the stop channel. The events it
  receives are a list; each tick brings the world of its call. When the list ends the
  loop is still waiting.
\<close>

datatype event = TickerC World | StopChan

fun monitorTraffic :: "App \<Rightarrow> event list \<Rightarrow> App \<times> effect list" where
  "monitorTraffic app [] = (app, [])"
| "monitorTraffic app (StopChan # evs) = (app, [])"
| "monitorTraffic app (TickerC w # evs) =
     (case updateTrafficStats app w of
        (err, app', eff) \<Rightarrow>
          (case monitorTraffic app' evs of
             (app'', effs) \<Rightarrow>
               (app'',
                eff @ (case err of None \<Rightarrow> [] | Some e \<Rightarrow> [Log (LogUpdateFailed e)]) @ effs)))"

text \<open>
  Successive calls of \<open>updateTrafficStats\<close> (the ticks of the loop and the last call in
  \<open>Start\<close>), each on the application the call before left: the result of every call.
\<close>

fun updates :: "App \<Rightarrow> World list \<Rightarrow> (error option \<times> App \<times> effect list) list" where
  "updates app [] = []"
| "updates app (w # ws) =
     (case updateTrafficStats app w of
        (err, app', eff) \<Rightarrow> (err, app', eff) # updates app' ws)"

text \<open>The application after these calls.\<close>

fun run :: "App \<Rightarrow> World list \<Rightarrow> App" where
  "run app [] = app"
| "run app (w # ws) = run (fst (snd (updateTrafficStats app w))) ws"

text \<open>
  The effects of \<open>sendWarningMessage\<close>: every call of it sends to the recipients and
  writes one of its two log lines.
\<close>

fun isWarningEffect :: "effect \<Rightarrow> bool" where
  "isWarningEffect (Send c (WarningMessage n t g) ok) = True"
| "isWarningEffect (Log LogWarnNoBot) = True"
| "isWarningEffect (Log LogWarnSent) = True"
| "isWarningEffect (Log (LogSendFailed WarningPass c)) = True"
| "isWarningEffect (Log (LogSendFailed ShutdownPass c)) = True"
| "isWarningEffect (Log LogShutdown) = True"
| "isWarningEffect PowerOff = True"
| "isWarningEffect e = False"

fun isReportEffect :: "effect \<Rightarrow> bool" where
  "isReportEffect (Send c (ReportMessage n m i out t d r) ok) = True"
| "isReportEffect (Log LogReportNoBot) = True"
| "isReportEffect (Log LogReportSent) = True"
| "isReportEffect (Log (LogSendFailed ReportPass c)) = True"
| "isReportEffect e = False"

fun isWriteFile :: "effect \<Rightarrow> bool" where
  "isWriteFile (WriteFile s) = True"
| "isWriteFile e = False"

text \<open>A message that reached its recipient.\<close>

fun isDelivered :: "effect \<Rightarrow> bool" where
  "isDelivered (Send c m ok) = ok"
| "isDelivered e = False"

text \<open>
  The call \<open>updateTrafficStats app w\<close> performs the monthly reset: it gets as far as the
  check, and the check finds the reset due.
\<close>

definition resets :: "App \<Rightarrow> World \<Rightarrow> bool" where
  "resets app w =
     (case getCurrentTrafficBytes (IOCounters w) (NetworkInterface (Config app)) of
        Inl err \<Rightarrow> False
      | Inr c \<Rightarrow> After (Now w) (NextResetTime (Stats app)))"

text \<open>How often a list of flags goes from false to true.\<close>

fun rises :: "bool list \<Rightarrow> nat" where
  "rises (a # b # bs) = (if \<not> a \<and> b then 1 else 0) + rises (b # bs)"
| "rises bs = 0"

text \<open>
  The true deltas of a run of raw samples after a baseline: each sample minus the one
  before it, as natural numbers.
\<close>

fun deltas :: "uint64 \<Rightarrow> uint64 list \<Rightarrow> nat list" where
  "deltas b [] = []"
| "deltas b (x # xs) = (unat x - unat b) # deltas x xs"

section \<open>Example inputs\<close>

text \<open>The last nanosecond of 2025 and a noon in March 2025, both local time.\<close>

definition lastOf2025 :: Time where
  "lastOf2025 =
     \<lparr>Year = 2025, Month = 12, Day = 31, Hour = 23, Minute = 59, Second = 59,
      Nanosecond = 999999999, Location = ''Local''\<rparr>"

definition marchNoon :: Time where
  "marchNoon =
     \<lparr>Year = 2025, Month = 3, Day = 15, Hour = 12, Minute = 0, Second = 0,
      Nanosecond = 0, Location = ''Local''\<rparr>"

definition april1 :: Time where
  "april1 =
     \<lparr>Year = 2025, Month = 4, Day = 1, Hour = 0, Minute = 0, Second = 0,
      Nanosecond = 0, Location = ''Local''\<rparr>"

text \<open>The default configuration of \<open>loadConfig\<close>, with two recipients.\<close>

definition defaultConfig :: Config where
  "defaultConfig =
     \<lparr>MonthlyResetDay = 1, NetworkInterface = ''eth0'', TrafficMode = ''both'',
      WarningThresholdGB = 1000, CheckIntervalSeconds = 300, DataDir = ''./data'',
      TelegramBotToken = ''token'', TelegramChatIDs = [123456789, 987654321],
      ServerName = ''MyServer'', ShutdownOnWarning = False\<rparr>"

text \<open>
  Statistics of a period that began at noon on 15 March 2025 and ends on 1 April, with
  the given totals and baselines and no warning sent yet.
\<close>

definition marchStats :: "uint64 \<Rightarrow> uint64 \<Rightarrow> uint64 \<Rightarrow> uint64 \<Rightarrow> TrafficStats" where
  "marchStats bytesIn bytesOut lastIn lastOut =
     \<lparr>CurrentMonth = ''2025-03'', LastResetTime = marchNoon, NextResetTime = april1,
      BytesIn = bytesIn, BytesOut = bytesOut, LastBytesIn = lastIn, LastBytesOut = lastOut,
      WarningsSentThisMonth = False\<rparr>"

definition marchApp :: "Config \<Rightarrow> uint64 \<Rightarrow> uint64 \<Rightarrow> uint64 \<Rightarrow> uint64 \<Rightarrow> App" where
  "marchApp cfg bytesIn bytesOut lastIn lastOut =
     \<lparr>Config = cfg, Stats = marchStats bytesIn bytesOut lastIn lastOut,
      Bot = Some (BotAPI ''token'')\<rparr>"

text \<open>
  A world at time \<open>now\<close> in which interface eth0 has the given counters (after the
  loopback interface), every send and the write succeed, and no statistics file exists.
\<close>

definition eth0World :: "uint64 \<Rightarrow> uint64 \<Rightarrow> Time \<Rightarrow> World" where
  "eth0World recv sent now =
     \<lparr>IOCounters = Inr [\<lparr>Name = ''lo'', BytesRecv = 7, BytesSent = 7\<rparr>,
                        \<lparr>Name = ''eth0'', BytesRecv = recv, BytesSent = sent\<rparr>],
      Now = now, SendFails = (\<lambda>p i. False), MarshalFails = False, WriteFails = False,
      StatsFile = NotExist\<rparr>"

text \<open>The same world without interface eth0.\<close>

definition noEth0World :: "Time \<Rightarrow> World" where
  "noEth0World now =
     \<lparr>IOCounters = Inr [\<lparr>Name = ''lo'', BytesRecv = 7, BytesSent = 7\<rparr>],
      Now = now, SendFails = (\<lambda>p i. False), MarshalFails = False, WriteFails = False,
      StatsFile = NotExist\<rparr>"

section \<open>Properties\<close>

subsection \<open>Effects of the messages\<close>


lemma sendAll_report_effects:
  "e \<in> set (sendAll w ReportPass i cs (ReportMessage n m a b t d r)) \<Longrightarrow>
     isReportEffect e \<and> \<not> isWarningEffect e \<and> \<not> isWriteFile e"
  by (induction cs arbitrary: i) (auto split: if_splits)


lemma sendWarningMessage_logs:
  "\<exists>e \<in> set (sendWarningMessage app w tb). isWarningEffect e"
  by (auto simp: sendWarningMessage_def Let_def)

lemma sendMonthlyReport_effects:
  "e \<in> set (sendMonthlyReport app w) \<Longrightarrow>
     isReportEffect e \<and> \<not> isWarningEffect e \<and> \<not> isWriteFile e"
  by (auto simp: sendMonthlyReport_def Let_def split: if_splits dest: sendAll_report_effects)

lemma sendMonthlyReport_logs:
  "\<exists>e \<in> set (sendMonthlyReport app w). isReportEffect e"
  by (auto simp: sendMonthlyReport_def Let_def)

lemma saveStats_effects:
  "e \<in> set (snd (saveStats st w)) \<Longrightarrow> \<not> isWarningEffect e \<and> \<not> isReportEffect e"
  by (auto simp: saveStats_def split: if_splits)

subsection \<open>The steps of the update\<close>

lemma updateTrafficStats_fail:
  "getCurrentTrafficBytes (IOCounters w) (NetworkInterface (Config app)) = Inl err \<Longrightarrow>
     updateTrafficStats app w = (Some err, app, [])"
  by (simp add: updateTrafficStats_def)

lemma updateTrafficStats_ok:
  assumes "getCurrentTrafficBytes (IOCounters w) (NetworkInterface (Config app)) = Inr (ri, ro)"
  shows "updateTrafficStats app w =
     (fst (saveStats (Stats (fst (checkReset (fst (checkWarning
              (app\<lparr>Stats := accumulate (Stats app) ri ro\<rparr>) w)) w))) w),
      fst (checkReset (fst (checkWarning (app\<lparr>Stats := accumulate (Stats app) ri ro\<rparr>) w)) w),
      snd (checkWarning (app\<lparr>Stats := accumulate (Stats app) ri ro\<rparr>) w)
      @ snd (checkReset (fst (checkWarning (app\<lparr>Stats := accumulate (Stats app) ri ro\<rparr>) w)) w)
      @ snd (saveStats (Stats (fst (checkReset (fst (checkWarning
              (app\<lparr>Stats := accumulate (Stats app) ri ro\<rparr>) w)) w))) w))"
  using assms by (simp add: updateTrafficStats_def Let_def split: prod.splits)

lemma accumulate_frame:
  "WarningsSentThisMonth (accumulate st ri ro) = WarningsSentThisMonth st"
  "NextResetTime (accumulate st ri ro) = NextResetTime st"
  "LastResetTime (accumulate st ri ro) = LastResetTime st"
  "CurrentMonth (accumulate st ri ro) = CurrentMonth st"
  "LastBytesIn (accumulate st ri ro) = ri"
  "LastBytesOut (accumulate st ri ro) = ro"
  "BytesIn (accumulate st ri ro) = BytesIn st + (ri - LastBytesIn st)"
  "BytesOut (accumulate st ri ro) = BytesOut st + (ro - LastBytesOut st)"
  by (simp_all add: accumulate_def Let_def)

lemma checkWarning_frame:
  "Config (fst (checkWarning app w)) = Config app"
  "Bot (fst (checkWarning app w)) = Bot app"
  "Stats (fst (checkWarning app w)) =
     (Stats app)\<lparr>WarningsSentThisMonth := WarningsSentThisMonth (Stats (fst (checkWarning app w)))\<rparr>"
  by (simp_all add: checkWarning_def Let_def)

lemma checkWarning_flag:
  "WarningsSentThisMonth (Stats (fst (checkWarning app w))) \<longleftrightarrow>
     WarningsSentThisMonth (Stats app) \<or>
     totalTraffic (TrafficMode (Config app)) (BytesIn (Stats app)) (BytesOut (Stats app))
       \<ge> uint64_of_float64 (WarningThresholdGB (Config app) * 1024 * 1024 * 1024)"
  by (simp add: checkWarning_def Let_def)

lemma checkWarning_effects:
  "snd (checkWarning app w) =
     (if \<not> WarningsSentThisMonth (Stats app) \<and>
         totalTraffic (TrafficMode (Config app)) (BytesIn (Stats app)) (BytesOut (Stats app))
           \<ge> uint64_of_float64 (WarningThresholdGB (Config app) * 1024 * 1024 * 1024)
      then sendWarningMessage app w
             (totalTraffic (TrafficMode (Config app)) (BytesIn (Stats app)) (BytesOut (Stats app)))
      else [])"
  by (simp add: checkWarning_def Let_def)

lemma checkReset_frame:
  "Config (fst (checkReset app w)) = Config app"
  "Bot (fst (checkReset app w)) = Bot app"
  "LastBytesIn (Stats (fst (checkReset app w))) = LastBytesIn (Stats app)"
  "LastBytesOut (Stats (fst (checkReset app w))) = LastBytesOut (Stats app)"
  by (simp_all add: checkReset_def Let_def)

lemma checkReset_due:
  "After (Now w) (NextResetTime (Stats app)) \<Longrightarrow>
     checkReset app w =
       (app\<lparr>Stats := (Stats app)
          \<lparr>CurrentMonth := Format_2006_01 (Now w),
           LastResetTime := Now w,
           NextResetTime := getNextResetTime (Now w) (MonthlyResetDay (Config app)),
           BytesIn := 0, BytesOut := 0, WarningsSentThisMonth := False\<rparr>\<rparr>,
        sendMonthlyReport app w)"
  by (simp add: checkReset_def Let_def)

lemma checkReset_not_due:
  "\<not> After (Now w) (NextResetTime (Stats app)) \<Longrightarrow> checkReset app w = (app, [])"
  by (simp add: checkReset_def Let_def)


lemma findInterface_absent:
  "interfaceName \<notin> Name ` set stats \<Longrightarrow>
     findInterface stats interfaceName = Inl (InterfaceNotFound interfaceName)"
  by (induction stats) auto

lemma updateTrafficStats_Stats:
  assumes "getCurrentTrafficBytes (IOCounters w) (NetworkInterface (Config app)) = Inr (ri, ro)"
  shows "Stats (fst (snd (updateTrafficStats app w))) =
     Stats (fst (checkReset (fst (checkWarning (app\<lparr>Stats := accumulate (Stats app) ri ro\<rparr>) w)) w))"
  by (simp add: updateTrafficStats_ok [OF assms])

lemma unat_wrapped_difference:
  fixes a b :: uint64
  assumes "a < b"
  shows "unat (a - b) = 2 ^ 64 - (unat b - unat a)" and "unat a < unat (a - b)"
proof -
  have lt: "unat a < unat b"
    using assms by (simp add: word_less_nat_alt)
  have b: "unat b < 2 ^ 64"
    using unsigned_less [of b] by simp
  have "unat (a - b) = unat a + 2 ^ 64 - unat b"
    using lt by (simp add: unat_sub_if_size word_size)
  with lt b show "unat (a - b) = 2 ^ 64 - (unat b - unat a)" by simp
  with lt b show "unat a < unat (a - b)" by simp
qed

lemma updateTrafficStats_effects:
  assumes "getCurrentTrafficBytes (IOCounters w) (NetworkInterface (Config app)) = Inr (ri, ro)"
  shows "snd (snd (updateTrafficStats app w)) =
      snd (checkWarning (app\<lparr>Stats := accumulate (Stats app) ri ro\<rparr>) w)
      @ snd (checkReset (fst (checkWarning (app\<lparr>Stats := accumulate (Stats app) ri ro\<rparr>) w)) w)
      @ snd (saveStats (Stats (fst (snd (updateTrafficStats app w)))) w)"
  by (simp add: updateTrafficStats_ok [OF assms])

lemma checkReset_effects:
  "e \<in> set (snd (checkReset app w)) \<Longrightarrow> \<not> isWarningEffect e"
  by (auto simp: checkReset_def Let_def split: if_splits dest: sendMonthlyReport_effects)

lemma checkWarning_warns:
  "list_ex isWarningEffect (snd (checkWarning app w)) \<longleftrightarrow>
     \<not> WarningsSentThisMonth (Stats app) \<and>
     totalTraffic (TrafficMode (Config app)) (BytesIn (Stats app)) (BytesOut (Stats app))
       \<ge> uint64_of_float64 (WarningThresholdGB (Config app) * 1024 * 1024 * 1024)"
  using sendWarningMessage_logs [of app w
      "totalTraffic (TrafficMode (Config app)) (BytesIn (Stats app)) (BytesOut (Stats app))"]
  by (auto simp: checkWarning_effects list_ex_iff)

lemma updateTrafficStats_warns:
  assumes "getCurrentTrafficBytes (IOCounters w) (NetworkInterface (Config app)) = Inr (ri, ro)"
  shows "list_ex isWarningEffect (snd (snd (updateTrafficStats app w))) \<longleftrightarrow>
     \<not> WarningsSentThisMonth (Stats app) \<and>
     totalTraffic (TrafficMode (Config app))
        (BytesIn (accumulate (Stats app) ri ro)) (BytesOut (accumulate (Stats app) ri ro))
       \<ge> uint64_of_float64 (WarningThresholdGB (Config app) * 1024 * 1024 * 1024)"
proof -
  let ?a = "app\<lparr>Stats := accumulate (Stats app) ri ro\<rparr>"
  have "list_ex isWarningEffect (snd (snd (updateTrafficStats app w))) \<longleftrightarrow>
        list_ex isWarningEffect (snd (checkWarning ?a w))"
    using checkReset_effects saveStats_effects
    by (subst updateTrafficStats_effects [OF assms]) (auto simp: list_ex_iff)
  then show ?thesis
    by (simp add: checkWarning_warns accumulate_frame)
qed

lemma updateTrafficStats_Config:
  "Config (fst (snd (updateTrafficStats app w))) = Config app"
  "Bot (fst (snd (updateTrafficStats app w))) = Bot app"
proof -
  show "Config (fst (snd (updateTrafficStats app w))) = Config app"
  proof (cases "getCurrentTrafficBytes (IOCounters w) (NetworkInterface (Config app))")
    case (Inl err)
    then show ?thesis by (simp add: updateTrafficStats_fail)
  next
    case (Inr c)
    then show ?thesis
      by (cases c) (simp add: updateTrafficStats_ok checkReset_frame checkWarning_frame(1,2))
  qed
  show "Bot (fst (snd (updateTrafficStats app w))) = Bot app"
  proof (cases "getCurrentTrafficBytes (IOCounters w) (NetworkInterface (Config app))")
    case (Inl err)
    then show ?thesis by (simp add: updateTrafficStats_fail)
  next
    case (Inr c)
    then show ?thesis
      by (cases c) (simp add: updateTrafficStats_ok checkReset_frame checkWarning_frame(1,2))
  qed
qed

lemma no_reset_flag:
  assumes "\<not> resets app w"
  shows "NextResetTime (Stats (fst (snd (updateTrafficStats app w)))) = NextResetTime (Stats app)"
    and "WarningsSentThisMonth (Stats (fst (snd (updateTrafficStats app w)))) \<longleftrightarrow>
           WarningsSentThisMonth (Stats app) \<or>
           list_ex isWarningEffect (snd (snd (updateTrafficStats app w)))"
proof -
  show "NextResetTime (Stats (fst (snd (updateTrafficStats app w)))) = NextResetTime (Stats app)"
  proof (cases "getCurrentTrafficBytes (IOCounters w) (NetworkInterface (Config app))")
    case (Inl err)
    then show ?thesis by (simp add: updateTrafficStats_fail)
  next
    case (Inr c)
    obtain ri ro where c: "c = (ri, ro)" by (cases c)
    let ?a = "app\<lparr>Stats := accumulate (Stats app) ri ro\<rparr>"
    have nrt: "NextResetTime (Stats (fst (checkWarning ?a w))) = NextResetTime (Stats app)"
      by (subst checkWarning_frame(3)) (simp add: accumulate_frame)
    from assms Inr have "\<not> After (Now w) (NextResetTime (Stats app))"
      by (simp add: resets_def)
    with Inr c nrt show ?thesis
      by (simp add: updateTrafficStats_Stats checkReset_not_due)
  qed
  show "WarningsSentThisMonth (Stats (fst (snd (updateTrafficStats app w)))) \<longleftrightarrow>
           WarningsSentThisMonth (Stats app) \<or>
           list_ex isWarningEffect (snd (snd (updateTrafficStats app w)))"
  proof (cases "getCurrentTrafficBytes (IOCounters w) (NetworkInterface (Config app))")
    case (Inl err)
    then show ?thesis by (simp add: updateTrafficStats_fail)
  next
    case (Inr c)
    obtain ri ro where c: "c = (ri, ro)" by (cases c)
    let ?a = "app\<lparr>Stats := accumulate (Stats app) ri ro\<rparr>"
    have nrt: "NextResetTime (Stats (fst (checkWarning ?a w))) = NextResetTime (Stats app)"
      by (subst checkWarning_frame(3)) (simp add: accumulate_frame)
    from assms Inr have "\<not> After (Now w) (NextResetTime (Stats app))"
      by (simp add: resets_def)
    with Inr c nrt show ?thesis
      by (auto simp: updateTrafficStats_Stats updateTrafficStats_warns checkReset_not_due
            checkWarning_flag accumulate_frame)
  qed
qed

lemma flag_blocks_warning:
  assumes "WarningsSentThisMonth (Stats app)"
  shows "\<not> list_ex isWarningEffect (snd (snd (updateTrafficStats app w)))"
proof (cases "getCurrentTrafficBytes (IOCounters w) (NetworkInterface (Config app))")
  case (Inl err)
  then show ?thesis by (simp add: updateTrafficStats_fail)
next
  case (Inr c)
  with assms show ?thesis
    by (cases c) (simp add: updateTrafficStats_warns)
qed

lemma no_reset_resets:
  assumes "\<not> resets app w"
  shows "resets (fst (snd (updateTrafficStats app w))) w' = resets app w'"
  by (simp add: resets_def updateTrafficStats_Config no_reset_flag(1) [OF assms]
        split: sum.splits)

lemma updates_Cons:
  "updates app (w # ws) =
     updateTrafficStats app w # updates (fst (snd (updateTrafficStats app w))) ws"
  by (simp split: prod.splits)

lemma updates_after_warning:
  assumes "WarningsSentThisMonth (Stats app)" and "\<forall>w \<in> set ws. \<not> resets app w"
  shows "filter (\<lambda>r. list_ex isWarningEffect (snd (snd r))) (updates app ws) = []
       \<and> rises (True # map (\<lambda>r. WarningsSentThisMonth (Stats (fst (snd r)))) (updates app ws)) = 0"
  using assms
proof (induction ws arbitrary: app)
  case Nil
  then show ?case by simp
next
  case (Cons w ws)
  let ?app' = "fst (snd (updateTrafficStats app w))"
  from Cons.prems have nr: "\<not> resets app w" by simp
  have quiet: "\<not> list_ex isWarningEffect (snd (snd (updateTrafficStats app w)))"
    using Cons.prems(1) by (rule flag_blocks_warning)
  have flag: "WarningsSentThisMonth (Stats ?app')"
    using no_reset_flag(2) [OF nr] Cons.prems(1) by simp
  have "\<forall>w' \<in> set ws. \<not> resets ?app' w'"
    using Cons.prems(2) by (simp add: no_reset_resets [OF nr])
  from Cons.IH [OF flag this] quiet flag show ?case
    by (simp add: updates_Cons del: updates.simps(2))
qed

lemma sendAll_all_fail:
  "\<forall>i. SendFails w p i \<Longrightarrow> \<not> list_ex isDelivered (sendAll w p i cs m)"
  by (induction cs arbitrary: i) simp_all

lemma sendWarningMessage_undelivered:
  assumes "Bot app = None \<or> (\<forall>i. SendFails w WarningPass i \<and> SendFails w ShutdownPass i)"
  shows "\<not> list_ex isDelivered (sendWarningMessage app w tb)"
  using assms sendAll_all_fail [of w WarningPass] sendAll_all_fail [of w ShutdownPass]
  by (auto simp: sendWarningMessage_def Let_def list_ex_iff)

lemma report_not_warning:
  "\<not> list_ex (\<lambda>e. isWarningEffect e \<and> isDelivered e) (snd (checkReset app w))"
  using checkReset_effects by (auto simp: list_ex_iff)

lemma save_not_warning:
  "\<not> list_ex (\<lambda>e. isWarningEffect e \<and> isDelivered e) (snd (saveStats st w))"
  using saveStats_effects by (auto simp: list_ex_iff)

lemma update_no_reset_totals:
  assumes read: "getCurrentTrafficBytes (IOCounters w) (NetworkInterface (Config app)) = Inr (ri, ro)"
      and nd: "\<not> After (Now w) (NextResetTime (Stats app))"
  shows "BytesIn (Stats (fst (snd (updateTrafficStats app w))))
           = BytesIn (Stats app) + (ri - LastBytesIn (Stats app))"
    and "BytesOut (Stats (fst (snd (updateTrafficStats app w))))
           = BytesOut (Stats app) + (ro - LastBytesOut (Stats app))"
    and "LastBytesIn (Stats (fst (snd (updateTrafficStats app w)))) = ri"
    and "LastBytesOut (Stats (fst (snd (updateTrafficStats app w)))) = ro"
    and "NextResetTime (Stats (fst (snd (updateTrafficStats app w)))) = NextResetTime (Stats app)"
proof -
  let ?a = "app\<lparr>Stats := accumulate (Stats app) ri ro\<rparr>"
  have st: "Stats (fst (snd (updateTrafficStats app w))) = Stats (fst (checkWarning ?a w))"
  proof -
    have "NextResetTime (Stats (fst (checkWarning ?a w))) = NextResetTime (Stats app)"
      by (subst checkWarning_frame(3)) (simp add: accumulate_frame)
    with nd show ?thesis
      by (simp add: updateTrafficStats_Stats [OF read] checkReset_not_due)
  qed
  show "BytesIn (Stats (fst (snd (updateTrafficStats app w))))
           = BytesIn (Stats app) + (ri - LastBytesIn (Stats app))"
    unfolding st by (subst checkWarning_frame(3)) (simp add: accumulate_frame)
  show "BytesOut (Stats (fst (snd (updateTrafficStats app w))))
           = BytesOut (Stats app) + (ro - LastBytesOut (Stats app))"
    unfolding st by (subst checkWarning_frame(3)) (simp add: accumulate_frame)
  show "LastBytesIn (Stats (fst (snd (updateTrafficStats app w)))) = ri"
    unfolding st by (subst checkWarning_frame(3)) (simp add: accumulate_frame)
  show "LastBytesOut (Stats (fst (snd (updateTrafficStats app w)))) = ro"
    unfolding st by (subst checkWarning_frame(3)) (simp add: accumulate_frame)
  show "NextResetTime (Stats (fst (snd (updateTrafficStats app w)))) = NextResetTime (Stats app)"
    unfolding st by (subst checkWarning_frame(3)) (simp add: accumulate_frame)
qed

lemma run_totals:
  assumes "map (\<lambda>w. getCurrentTrafficBytes (IOCounters w) (NetworkInterface (Config app))) ws
             = map Inr raws"
      and "\<forall>w \<in> set ws. \<not> After (Now w) (NextResetTime (Stats app))"
  shows "BytesIn (Stats (run app ws))
           = BytesIn (Stats app)
             + (last (LastBytesIn (Stats app) # map fst raws) - LastBytesIn (Stats app))
       \<and> BytesOut (Stats (run app ws))
           = BytesOut (Stats app)
             + (last (LastBytesOut (Stats app) # map snd raws) - LastBytesOut (Stats app))
       \<and> LastBytesIn (Stats (run app ws)) = last (LastBytesIn (Stats app) # map fst raws)
       \<and> LastBytesOut (Stats (run app ws)) = last (LastBytesOut (Stats app) # map snd raws)"
  using assms
proof (induction ws arbitrary: app raws)
  case Nil
  then show ?case by simp
next
  case (Cons w ws)
  from Cons.prems(1) obtain raw rest where raws: "raws = raw # rest"
    by (cases raws) auto
  obtain ri ro where raw: "raw = (ri, ro)" by (cases raw)
  let ?app' = "fst (snd (updateTrafficStats app w))"
  from Cons.prems(1) raws raw
  have read: "getCurrentTrafficBytes (IOCounters w) (NetworkInterface (Config app)) = Inr (ri, ro)"
    and reads: "map (\<lambda>w. getCurrentTrafficBytes (IOCounters w) (NetworkInterface (Config app))) ws
                  = map Inr rest"
    by simp_all
  from Cons.prems(2) have nd: "\<not> After (Now w) (NextResetTime (Stats app))"
    and nds: "\<forall>w \<in> set ws. \<not> After (Now w) (NextResetTime (Stats app))"
    by simp_all
  note step = update_no_reset_totals [OF read nd]
  have reads': "map (\<lambda>w. getCurrentTrafficBytes (IOCounters w) (NetworkInterface (Config ?app'))) ws
                  = map Inr rest"
    using reads by (simp add: updateTrafficStats_Config)
  have nds': "\<forall>w \<in> set ws. \<not> After (Now w) (NextResetTime (Stats ?app'))"
    using nds by (simp add: step)
  from Cons.IH [OF reads' nds'] show ?case
    by (simp add: raws raw step)
qed

lemma sorted_last_le:
  fixes b :: uint64
  shows "sorted (b # xs) \<Longrightarrow> b \<le> last (b # xs)"
  by (induction xs arbitrary: b) auto

lemma sum_list_deltas:
  "sorted (b # xs) \<Longrightarrow> sum_list (deltas b xs) = unat (last (b # xs)) - unat b"
proof (induction xs arbitrary: b)
  case Nil
  then show ?case by simp
next
  case (Cons x xs)
  from Cons.prems have "b \<le> x" and s: "sorted (x # xs)"
    by simp_all
  then have bx: "unat b \<le> unat x"
    by (simp add: word_le_nat_alt)
  from sorted_last_le [OF s] have "unat x \<le> unat (last (x # xs))"
    by (simp add: word_le_nat_alt)
  with Cons.IH [OF s] bx show ?case by simp
qed

lemma word_of_nat_difference:
  fixes b l :: uint64
  shows "b \<le> l \<Longrightarrow> word_of_nat (unat l - unat b) = l - b"
  by (simp add: word_le_nat_alt of_nat_diff)

lemma checkWarning_Stats:
  "Stats (fst (checkWarning app w)) =
     (Stats app)\<lparr>WarningsSentThisMonth :=
        WarningsSentThisMonth (Stats app) \<or>
        totalTraffic (TrafficMode (Config app)) (BytesIn (Stats app)) (BytesOut (Stats app))
          \<ge> uint64_of_float64 (WarningThresholdGB (Config app) * 1024 * 1024 * 1024)\<rparr>"
  by (simp add: checkWarning_def Let_def)



lemma loadOrInitStats_due_ok:
  assumes "StatsFile w = Contents (Some loaded)"
      and "After (Now w) (NextResetTime loaded)"
      and "getCurrentTrafficBytes (IOCounters w) (NetworkInterface (Config app)) = Inr (bi, bo)"
  shows "Stats (fst (snd (loadOrInitStats app w))) =
           loaded\<lparr>CurrentMonth := Format_2006_01 (Now w),
                  LastResetTime := Now w,
                  NextResetTime := getNextResetTime (Now w) (MonthlyResetDay (Config app)),
                  BytesIn := 0, BytesOut := 0,
                  LastBytesIn := bi, LastBytesOut := bo,
                  WarningsSentThisMonth := False\<rparr>"
    and "snd (snd (loadOrInitStats app w)) =
           sendMonthlyReport (app\<lparr>Stats := loaded\<rparr>) w
           @ snd (saveStats (Stats (fst (snd (loadOrInitStats app w)))) w)"
  using assms by (simp_all add: loadOrInitStats_def Let_def split: prod.splits)

lemma updateTrafficStats_due:
  assumes read: "getCurrentTrafficBytes (IOCounters w) (NetworkInterface (Config app)) = Inr (ri, ro)"
      and due: "After (Now w) (NextResetTime (Stats app))"
  shows "Stats (fst (snd (updateTrafficStats app w))) =
           (Stats app)\<lparr>CurrentMonth := Format_2006_01 (Now w),
                  LastResetTime := Now w,
                  NextResetTime := getNextResetTime (Now w) (MonthlyResetDay (Config app)),
                  BytesIn := 0, BytesOut := 0,
                  LastBytesIn := ri, LastBytesOut := ro,
                  WarningsSentThisMonth := False\<rparr>"
    and "list_ex isReportEffect (snd (snd (updateTrafficStats app w)))"
proof -
  let ?a = "app\<lparr>Stats := accumulate (Stats app) ri ro\<rparr>"
  let ?b = "fst (checkWarning ?a w)"
  have nrt: "NextResetTime (Stats ?b) = NextResetTime (Stats app)"
    by (subst checkWarning_frame(3)) (simp add: accumulate_frame)
  have due': "After (Now w) (NextResetTime (Stats ?b))"
    using due nrt by simp
  show "Stats (fst (snd (updateTrafficStats app w))) =
           (Stats app)\<lparr>CurrentMonth := Format_2006_01 (Now w),
                  LastResetTime := Now w,
                  NextResetTime := getNextResetTime (Now w) (MonthlyResetDay (Config app)),
                  BytesIn := 0, BytesOut := 0,
                  LastBytesIn := ri, LastBytesOut := ro,
                  WarningsSentThisMonth := False\<rparr>"
    apply (simp only: updateTrafficStats_Stats [OF read] checkReset_due [OF due'] fst_conv)
    apply (simp add: checkWarning_frame(1) checkWarning_Stats accumulate_def Let_def)
    done
  have "list_ex isReportEffect (snd (checkReset ?b w))"
    using sendMonthlyReport_logs [of ?b w]
    by (simp add: checkReset_due [OF due'] list_ex_iff)
  then show "list_ex isReportEffect (snd (snd (updateTrafficStats app w)))"
    by (subst updateTrafficStats_effects [OF read]) (simp add: list_ex_append)
qed




lemma unat_plus_word_of_nat:
  fixes t :: uint64
  assumes "unat t + n < 2 ^ 64"
  shows "unat (t + word_of_nat n) = unat t + n"
proof -
  have n: "n < 2 ^ 64" using assms by simp
  have "unat (word_of_nat n :: uint64) = n"
    using n by (simp add: unat_of_nat take_bit_nat_eq_self)
  moreover have "unat (t + word_of_nat n) = (unat t + unat (word_of_nat n :: uint64)) mod 2 ^ 64"
    by (simp add: unat_word_ariths)
  ultimately show ?thesis using assms by simp
qed

subsection \<open>Reading the example worlds\<close>

lemma read_eth0World:
  "getCurrentTrafficBytes (IOCounters (eth0World recv sent now)) ''eth0'' = Inr (recv, sent)"
  by (simp add: getCurrentTrafficBytes_def eth0World_def)


section \<open>The next reset time\<close>



section \<open>Deltas\<close>

text \<open>
  Claim C1, as the specification states it: when the raw counter is below the stored
  baseline, the delta is the raw value. It fails: with baseline 100 and raw value 40 the
  total rises from 0 by 18446744073709551556, which is 2^64 - 60, and not by 40.
\<close>

theorem discontinuity_delta_counterexample:
  "getCurrentTrafficBytes (IOCounters (eth0World 40 0 marchNoon))
      (NetworkInterface (Config (marchApp defaultConfig 0 0 100 0))) = Inr (40, 0)
   \<and> (40 :: uint64) < LastBytesIn (Stats (marchApp defaultConfig 0 0 100 0))
   \<and> BytesIn (Stats (fst (snd (updateTrafficStats (marchApp defaultConfig 0 0 100 0)
                                   (eth0World 40 0 marchNoon)))))
       - BytesIn (Stats (marchApp defaultConfig 0 0 100 0)) = 18446744073709551556
   \<and> BytesIn (Stats (fst (snd (updateTrafficStats (marchApp defaultConfig 0 0 100 0)
                                   (eth0World 40 0 marchNoon)))))
       - BytesIn (Stats (marchApp defaultConfig 0 0 100 0)) \<noteq> 40"
  by (simp add: updateTrafficStats_def marchApp_def defaultConfig_def marchStats_def
      accumulate_def checkWarning_def checkReset_def saveStats_def Let_def
      totalTraffic_def uint64_of_float64_def After_def marchNoon_def april1_def eth0World_def
      getCurrentTrafficBytes_def)

text \<open>
  Claim C1, amended. After a successful read the totals are zero when the reset is due
  and otherwise the old totals plus the differences \<open>rawIn - LastBytesIn\<close> and
  \<open>rawOut - LastBytesOut\<close>, computed in \<open>uint64\<close>. When the raw value is below the baseline
  this difference is 2^64 minus the drop of the counter: it is not negative, it is the
  wrapped value of the unsigned subtraction, and it is larger than the raw value.
\<close>

theorem discontinuity_delta_wraps:
  assumes "getCurrentTrafficBytes (IOCounters w) (NetworkInterface (Config app)) = Inr (rawIn, rawOut)"
  shows "BytesIn (Stats (fst (snd (updateTrafficStats app w)))) =
           (if After (Now w) (NextResetTime (Stats app)) then 0
            else BytesIn (Stats app) + (rawIn - LastBytesIn (Stats app)))
       \<and> BytesOut (Stats (fst (snd (updateTrafficStats app w)))) =
           (if After (Now w) (NextResetTime (Stats app)) then 0
            else BytesOut (Stats app) + (rawOut - LastBytesOut (Stats app)))
       \<and> (rawIn < LastBytesIn (Stats app) \<longrightarrow>
            unat (rawIn - LastBytesIn (Stats app))
              = 2 ^ 64 - (unat (LastBytesIn (Stats app)) - unat rawIn)
            \<and> unat rawIn < unat (rawIn - LastBytesIn (Stats app)))
       \<and> (rawOut < LastBytesOut (Stats app) \<longrightarrow>
            unat (rawOut - LastBytesOut (Stats app))
              = 2 ^ 64 - (unat (LastBytesOut (Stats app)) - unat rawOut)
            \<and> unat rawOut < unat (rawOut - LastBytesOut (Stats app)))"
proof -
  let ?a = "app\<lparr>Stats := accumulate (Stats app) rawIn rawOut\<rparr>"
  have nrt: "NextResetTime (Stats (fst (checkWarning ?a w))) = NextResetTime (Stats app)"
    by (subst checkWarning_frame(3)) (simp add: accumulate_frame)
  have bin: "BytesIn (Stats (fst (checkWarning ?a w)))
               = BytesIn (Stats app) + (rawIn - LastBytesIn (Stats app))"
    by (subst checkWarning_frame(3)) (simp add: accumulate_frame)
  have bout: "BytesOut (Stats (fst (checkWarning ?a w)))
               = BytesOut (Stats app) + (rawOut - LastBytesOut (Stats app))"
    by (subst checkWarning_frame(3)) (simp add: accumulate_frame)
  show ?thesis
  proof (cases "After (Now w) (NextResetTime (Stats app))")
    case True
    then show ?thesis
      using unat_wrapped_difference
      by (simp add: updateTrafficStats_Stats [OF assms] checkReset_due nrt)
  next
    case False
    then show ?thesis
      using unat_wrapped_difference
      by (simp add: updateTrafficStats_Stats [OF assms] checkReset_not_due nrt bin bout)
  qed
qed

text \<open>
  Baselines 100 and 50, raw values 40 and 5, totals 1000 and 2000: the totals become 940
  and 1955, that is 1000 + (2^64 - 60) and 2000 + (2^64 - 45) modulo 2^64.
\<close>

theorem discontinuity_delta_wraps_witness:
  "getCurrentTrafficBytes (IOCounters (eth0World 40 5 marchNoon))
      (NetworkInterface (Config (marchApp defaultConfig 1000 2000 100 50))) = Inr (40, 5)
   \<and> (40 :: uint64) < LastBytesIn (Stats (marchApp defaultConfig 1000 2000 100 50))
   \<and> (5 :: uint64) < LastBytesOut (Stats (marchApp defaultConfig 1000 2000 100 50))
   \<and> \<not> After (Now (eth0World 40 5 marchNoon))
           (NextResetTime (Stats (marchApp defaultConfig 1000 2000 100 50)))
   \<and> BytesIn (Stats (fst (snd (updateTrafficStats (marchApp defaultConfig 1000 2000 100 50)
                                   (eth0World 40 5 marchNoon))))) = 940
   \<and> BytesOut (Stats (fst (snd (updateTrafficStats (marchApp defaultConfig 1000 2000 100 50)
                                   (eth0World 40 5 marchNoon))))) = 1955
   \<and> unat ((40 :: uint64) - 100) = 18446744073709551556"
proof -
  have r: "getCurrentTrafficBytes (IOCounters (eth0World 40 5 marchNoon))
      (NetworkInterface (Config (marchApp defaultConfig 1000 2000 100 50))) = Inr (40, 5)"
    by (simp add: marchApp_def defaultConfig_def read_eth0World)
  have n: "\<not> After (Now (eth0World 40 5 marchNoon))
           (NextResetTime (Stats (marchApp defaultConfig 1000 2000 100 50)))"
    by (simp add: eth0World_def marchApp_def marchStats_def After_def marchNoon_def april1_def)
  have s: "Stats (marchApp defaultConfig 1000 2000 100 50) = marchStats 1000 2000 100 50"
    by (simp add: marchApp_def)
  from discontinuity_delta_wraps [OF r] r n show ?thesis
    by (simp add: s marchStats_def)
qed

section \<open>A failed read\<close>

text \<open>
  Claim C4. When the counter read fails, because \<open>net.IOCounters\<close> fails or because no
  interface has the configured name, \<open>updateTrafficStats\<close> returns the error and leaves
  the application as it was, every field of the statistics included; it has no effect,
  so it does not write the file; and \<open>monitorTraffic\<close> logs the error and goes on with
  the next event.
\<close>

theorem read_failure_aborts_update:
  assumes "IOCounters w = Inl err \<or>
           (\<exists>stats. IOCounters w = Inr stats \<and>
              NetworkInterface (Config app) \<notin> Name ` set stats \<and>
              err = InterfaceNotFound (NetworkInterface (Config app)))"
  shows "updateTrafficStats app w = (Some err, app, [])
       \<and> monitorTraffic app (TickerC w # evs) =
           (fst (monitorTraffic app evs),
            Log (LogUpdateFailed err) # snd (monitorTraffic app evs))"
proof -
  have "getCurrentTrafficBytes (IOCounters w) (NetworkInterface (Config app)) = Inl err"
    using assms by (auto simp: getCurrentTrafficBytes_def findInterface_absent)
  then have "updateTrafficStats app w = (Some err, app, [])"
    by (rule updateTrafficStats_fail)
  then show ?thesis
    by (simp split: prod.splits)
qed

text \<open>
  With no interface eth0, and the reset long due: the statistics stay, nothing is
  written, and the loop waits for its next event.
\<close>

theorem read_failure_aborts_update_witness:
  "updateTrafficStats (marchApp defaultConfig 10 20 30 40) (noEth0World lastOf2025)
     = (Some (InterfaceNotFound ''eth0''), marchApp defaultConfig 10 20 30 40, [])
   \<and> monitorTraffic (marchApp defaultConfig 10 20 30 40)
        [TickerC (noEth0World lastOf2025), StopChan]
     = (marchApp defaultConfig 10 20 30 40, [Log (LogUpdateFailed (InterfaceNotFound ''eth0''))])"
proof -
  have h: "IOCounters (noEth0World lastOf2025) = Inl (InterfaceNotFound ''eth0'') \<or>
           (\<exists>stats. IOCounters (noEth0World lastOf2025) = Inr stats \<and>
              NetworkInterface (Config (marchApp defaultConfig 10 20 30 40)) \<notin> Name ` set stats \<and>
              InterfaceNotFound ''eth0''
                = InterfaceNotFound (NetworkInterface (Config (marchApp defaultConfig 10 20 30 40))))"
    by (simp add: noEth0World_def marchApp_def defaultConfig_def)
  from read_failure_aborts_update [OF h, of "[StopChan]"] show ?thesis
    by simp
qed

section \<open>The warning\<close>

text \<open>
  Claim C2. Take successive calls of \<open>updateTrafficStats\<close> none of which performs the
  reset. At most one of the calls sends a warning, and \<open>WarningsSentThisMonth\<close> goes from
  false to true at most once. Once the flag is true none of the calls sends a warning,
  and no call at all does while the flag is true, whatever the counters, the totals, the
  threshold and the clock are: the flag alone decides.
\<close>

theorem warning_once_per_period:
  assumes "\<forall>w \<in> set ws. \<not> resets app w"
  shows "length (filter (\<lambda>r. list_ex isWarningEffect (snd (snd r))) (updates app ws)) \<le> 1
       \<and> rises (WarningsSentThisMonth (Stats app)
                 # map (\<lambda>r. WarningsSentThisMonth (Stats (fst (snd r)))) (updates app ws)) \<le> 1
       \<and> (WarningsSentThisMonth (Stats app) \<longrightarrow>
            filter (\<lambda>r. list_ex isWarningEffect (snd (snd r))) (updates app ws) = []
            \<and> \<not> list_ex isWarningEffect (snd (snd (updateTrafficStats app w'))))"
  using assms
proof (induction ws arbitrary: app)
  case Nil
  then show ?case by (simp add: flag_blocks_warning)
next
  case (Cons w ws)
  let ?app' = "fst (snd (updateTrafficStats app w))"
  from Cons.prems have nr: "\<not> resets app w" by simp
  have rest: "\<forall>w' \<in> set ws. \<not> resets ?app' w'"
    using Cons.prems by (simp add: no_reset_resets [OF nr])
  show ?case
  proof (cases "WarningsSentThisMonth (Stats app)")
    case True
    from updates_after_warning [OF True Cons.prems] True show ?thesis
      by (simp add: flag_blocks_warning)
  next
    case False
    show ?thesis
    proof (cases "list_ex isWarningEffect (snd (snd (updateTrafficStats app w)))")
      case True
      then have flag: "WarningsSentThisMonth (Stats ?app')"
        using no_reset_flag(2) [OF nr] by simp
      from updates_after_warning [OF flag rest] True flag False show ?thesis
        by (simp add: updates_Cons del: updates.simps(2))
    next
      case quiet: False
      then have flag: "\<not> WarningsSentThisMonth (Stats ?app')"
        using no_reset_flag(2) [OF nr] False by simp
      from Cons.IH [OF rest] quiet flag False show ?thesis
        by (simp add: updates_Cons del: updates.simps(2))
    qed
  qed
qed

text \<open>
  The scenario of the specification: mode both, threshold 1000 GB, totals 600 GiB in and
  450 GiB out on the first call, which sends the warning and sets the flag; 460 GiB out
  on the second call, which sends none.
\<close>

theorem warning_once_per_period_witness:
  "\<not> resets (marchApp defaultConfig 0 0 0 0) (eth0World 644245094400 483183820800 marchNoon)
   \<and> \<not> resets (marchApp defaultConfig 0 0 0 0) (eth0World 644245094400 493921239040 marchNoon)
   \<and> map (\<lambda>r. list_ex isWarningEffect (snd (snd r)))
        (updates (marchApp defaultConfig 0 0 0 0)
           [eth0World 644245094400 483183820800 marchNoon,
            eth0World 644245094400 493921239040 marchNoon]) = [True, False]
   \<and> map (\<lambda>r. WarningsSentThisMonth (Stats (fst (snd r))))
        (updates (marchApp defaultConfig 0 0 0 0)
           [eth0World 644245094400 483183820800 marchNoon,
            eth0World 644245094400 493921239040 marchNoon]) = [True, True]
   \<and> length (filter (\<lambda>r. list_ex isWarningEffect (snd (snd r)))
        (updates (marchApp defaultConfig 0 0 0 0)
           [eth0World 644245094400 483183820800 marchNoon,
            eth0World 644245094400 493921239040 marchNoon])) \<le> 1"
proof -
  let ?app = "marchApp defaultConfig 0 0 0 0"
  let ?w1 = "eth0World 644245094400 483183820800 marchNoon"
  let ?w2 = "eth0World 644245094400 493921239040 marchNoon"
  have nd: "\<not> After marchNoon april1"
    by (simp add: After_def marchNoon_def april1_def)
  have n1: "\<not> resets ?app ?w1" and n2: "\<not> resets ?app ?w2"
    using nd by (simp_all add: resets_def marchApp_def marchStats_def eth0World_def split: sum.splits)
  have h: "\<forall>w \<in> set [?w1, ?w2]. \<not> resets ?app w"
    using n1 n2 by simp
  have r1: "getCurrentTrafficBytes (IOCounters ?w1) (NetworkInterface (Config ?app))
              = Inr (644245094400, 483183820800)"
    by (simp add: marchApp_def defaultConfig_def read_eth0World)
  have w1: "list_ex isWarningEffect (snd (snd (updateTrafficStats ?app ?w1)))"
    by (simp add: updateTrafficStats_warns [OF r1] accumulate_frame)
       (simp add: marchApp_def marchStats_def defaultConfig_def totalTraffic_def
          uint64_of_float64_def)
  have f1: "WarningsSentThisMonth (Stats (fst (snd (updateTrafficStats ?app ?w1))))"
    using no_reset_flag(2) [OF n1] w1 by simp
  have n2': "\<not> resets (fst (snd (updateTrafficStats ?app ?w1))) ?w2"
    using n2 by (simp add: no_reset_resets [OF n1])
  have w2: "\<not> list_ex isWarningEffect
              (snd (snd (updateTrafficStats (fst (snd (updateTrafficStats ?app ?w1))) ?w2)))"
    using f1 by (rule flag_blocks_warning)
  have f2: "WarningsSentThisMonth
              (Stats (fst (snd (updateTrafficStats (fst (snd (updateTrafficStats ?app ?w1))) ?w2))))"
    using no_reset_flag(2) [OF n2'] f1 by simp
  from warning_once_per_period [OF h] n1 n2 w1 w2 f1 f2 show ?thesis
    by (simp add: updates_Cons del: updates.simps(2))
qed

section \<open>The traffic that is compared with the threshold\<close>

text \<open>
  Claim C5, as the specification states it, ends: the traffic of an unrecognized mode is
  0, so an unrecognized mode never triggers a warning. That part fails: with mode
  \<open>total\<close> and a threshold of 0 GB the comparison is \<open>0 >= 0\<close> and the warning is sent.
\<close>

theorem unknown_mode_warning_counterexample:
  "''total'' \<notin> {''in'', ''out'', ''max'', ''both''}
   \<and> totalTraffic ''total'' 5 7 = 0
   \<and> list_ex isWarningEffect (snd (snd (updateTrafficStats
        (marchApp (defaultConfig\<lparr>TrafficMode := ''total'', WarningThresholdGB := 0\<rparr>) 0 0 0 0)
        (eth0World 5 7 marchNoon))))"
proof -
  let ?app = "marchApp (defaultConfig\<lparr>TrafficMode := ''total'', WarningThresholdGB := 0\<rparr>) 0 0 0 0"
  have r: "getCurrentTrafficBytes (IOCounters (eth0World 5 7 marchNoon))
             (NetworkInterface (Config ?app)) = Inr (5, 7)"
    by (simp add: marchApp_def defaultConfig_def read_eth0World)
  have "list_ex isWarningEffect (snd (snd (updateTrafficStats ?app (eth0World 5 7 marchNoon))))"
    by (simp add: updateTrafficStats_warns [OF r] accumulate_frame)
       (simp add: marchApp_def marchStats_def defaultConfig_def totalTraffic_def
          uint64_of_float64_def)
  then show ?thesis
    by (simp add: totalTraffic_def)
qed

text \<open>
  Claim C5, amended. \<open>totalTraffic\<close> is the inbound total for mode \<open>in\<close>, the outbound
  total for \<open>out\<close>, the larger of the two for \<open>max\<close>, their \<open>uint64\<close> sum for \<open>both\<close>
  and 0 for every other mode string. With such a mode a call of \<open>updateTrafficStats\<close>
  sends a warning exactly when its read succeeds, the flag is false and the threshold is
  0 bytes; so with a threshold of one byte or more an unrecognized mode never triggers a
  warning.
\<close>

theorem totalTraffic_by_mode:
  "totalTraffic ''in'' accIn accOut = accIn
   \<and> totalTraffic ''out'' accIn accOut = accOut
   \<and> totalTraffic ''max'' accIn accOut = max accIn accOut
   \<and> totalTraffic ''both'' accIn accOut = accIn + accOut
   \<and> (mode \<notin> {''in'', ''out'', ''max'', ''both''} \<longrightarrow> totalTraffic mode accIn accOut = 0)
   \<and> (TrafficMode (Config app) \<notin> {''in'', ''out'', ''max'', ''both''} \<longrightarrow>
        (list_ex isWarningEffect (snd (snd (updateTrafficStats app w))) \<longleftrightarrow>
           (\<exists>c. getCurrentTrafficBytes (IOCounters w) (NetworkInterface (Config app)) = Inr c)
           \<and> \<not> WarningsSentThisMonth (Stats app)
           \<and> uint64_of_float64 (WarningThresholdGB (Config app) * 1024 * 1024 * 1024) = 0))"
proof -
  have table: "totalTraffic ''in'' accIn accOut = accIn
     \<and> totalTraffic ''out'' accIn accOut = accOut
     \<and> totalTraffic ''max'' accIn accOut = max accIn accOut
     \<and> totalTraffic ''both'' accIn accOut = accIn + accOut"
    by (auto simp: totalTraffic_def max_def)
  have other: "totalTraffic m a b = 0" if "m \<notin> {''in'', ''out'', ''max'', ''both''}" for m a b
    using that by (simp add: totalTraffic_def)
  have gate: "list_ex isWarningEffect (snd (snd (updateTrafficStats app w))) \<longleftrightarrow>
           (\<exists>c. getCurrentTrafficBytes (IOCounters w) (NetworkInterface (Config app)) = Inr c)
           \<and> \<not> WarningsSentThisMonth (Stats app)
           \<and> uint64_of_float64 (WarningThresholdGB (Config app) * 1024 * 1024 * 1024) = 0"
    if m: "TrafficMode (Config app) \<notin> {''in'', ''out'', ''max'', ''both''}"
  proof (cases "getCurrentTrafficBytes (IOCounters w) (NetworkInterface (Config app))")
    case (Inl err)
    then show ?thesis by (simp add: updateTrafficStats_fail)
  next
    case (Inr c)
    obtain ri ro where c: "c = (ri, ro)" by (cases c)
    from Inr c show ?thesis
      by (simp add: updateTrafficStats_warns other [OF m])
  qed
  from table other gate show ?thesis by blast
qed

text \<open>
  The scenario of the specification for mode \<open>max\<close>, 200 GiB in and 900 GiB out; and mode
  \<open>total\<close> with the threshold of 1000 GB, where 2000 GiB each way send no warning.
\<close>

theorem totalTraffic_by_mode_witness:
  "totalTraffic ''max'' 214748364800 966367641600 = 966367641600
   \<and> ''total'' \<notin> {''in'', ''out'', ''max'', ''both''}
   \<and> totalTraffic ''total'' 214748364800 966367641600 = 0
   \<and> uint64_of_float64 (WarningThresholdGB (defaultConfig\<lparr>TrafficMode := ''total''\<rparr>)
        * 1024 * 1024 * 1024) \<noteq> 0
   \<and> \<not> list_ex isWarningEffect (snd (snd (updateTrafficStats
        (marchApp (defaultConfig\<lparr>TrafficMode := ''total''\<rparr>) 0 0 0 0)
        (eth0World 2147483648000 2147483648000 marchNoon))))"
proof -
  let ?app = "marchApp (defaultConfig\<lparr>TrafficMode := ''total''\<rparr>) 0 0 0 0"
  have m: "TrafficMode (Config ?app) \<notin> {''in'', ''out'', ''max'', ''both''}"
    by (simp add: marchApp_def defaultConfig_def)
  have t: "uint64_of_float64 (WarningThresholdGB (Config ?app) * 1024 * 1024 * 1024) \<noteq> 0"
    by (simp add: marchApp_def defaultConfig_def uint64_of_float64_def)
  from totalTraffic_by_mode [of 214748364800 966367641600 "''total''" ?app
        "eth0World 2147483648000 2147483648000 marchNoon"] m t
  show ?thesis
    by (simp add: marchApp_def defaultConfig_def)
qed

section \<open>A warning that reaches nobody\<close>

text \<open>
  Claim C10. Take a call of \<open>updateTrafficStats\<close> whose read succeeds, with the flag
  false and the traffic of the new totals at or above the threshold. The warning step
  sets the flag, whatever \<open>Bot\<close> is and whatever the sends return. When \<open>Bot\<close> is nil, or
  when every send of the warning fails, no warning is delivered by the call. Unless the
  same call performs the reset, the flag is true after it, and no later call before a
  reset sends a warning: the warning of the period is used up and is not tried again.
\<close>

theorem warning_consumed_without_delivery:
  assumes read: "getCurrentTrafficBytes (IOCounters w) (NetworkInterface (Config app)) = Inr (ri, ro)"
      and unsent: "\<not> WarningsSentThisMonth (Stats app)"
      and over: "totalTraffic (TrafficMode (Config app))
                   (BytesIn (accumulate (Stats app) ri ro)) (BytesOut (accumulate (Stats app) ri ro))
                 \<ge> uint64_of_float64 (WarningThresholdGB (Config app) * 1024 * 1024 * 1024)"
  shows "WarningsSentThisMonth
           (Stats (fst (checkWarning (app\<lparr>Stats := accumulate (Stats app) ri ro\<rparr>) w)))
       \<and> (Bot app = None \<or> (\<forall>i. SendFails w WarningPass i \<and> SendFails w ShutdownPass i) \<longrightarrow>
            \<not> list_ex (\<lambda>e. isWarningEffect e \<and> isDelivered e)
                 (snd (snd (updateTrafficStats app w))))
       \<and> (\<not> After (Now w) (NextResetTime (Stats app)) \<longrightarrow>
            WarningsSentThisMonth (Stats (fst (snd (updateTrafficStats app w))))
            \<and> ((\<forall>w' \<in> set ws. \<not> resets app w') \<longrightarrow>
                 filter (\<lambda>r. list_ex isWarningEffect (snd (snd r)))
                   (updates (fst (snd (updateTrafficStats app w))) ws) = []))"
proof -
  let ?a = "app\<lparr>Stats := accumulate (Stats app) ri ro\<rparr>"
  let ?app' = "fst (snd (updateTrafficStats app w))"
  have set: "WarningsSentThisMonth (Stats (fst (checkWarning ?a w)))"
    using over by (simp add: checkWarning_flag)
  have undelivered: "\<not> list_ex (\<lambda>e. isWarningEffect e \<and> isDelivered e)
                          (snd (snd (updateTrafficStats app w)))"
    if "Bot app = None \<or> (\<forall>i. SendFails w WarningPass i \<and> SendFails w ShutdownPass i)"
  proof -
    have "\<not> list_ex isDelivered (snd (checkWarning ?a w))"
      using sendWarningMessage_undelivered [of ?a w] that
      by (simp add: checkWarning_effects)
    then have "\<not> list_ex (\<lambda>e. isWarningEffect e \<and> isDelivered e) (snd (checkWarning ?a w))"
      by (auto simp: list_ex_iff)
    with report_not_warning save_not_warning show ?thesis
      by (subst updateTrafficStats_effects [OF read]) (simp add: list_ex_append)
  qed
  have later: "WarningsSentThisMonth (Stats ?app')
       \<and> ((\<forall>w' \<in> set ws. \<not> resets app w') \<longrightarrow>
            filter (\<lambda>r. list_ex isWarningEffect (snd (snd r))) (updates ?app' ws) = [])"
    if nd: "\<not> After (Now w) (NextResetTime (Stats app))"
  proof -
    have nr: "\<not> resets app w"
      using nd read by (simp add: resets_def)
    have "list_ex isWarningEffect (snd (snd (updateTrafficStats app w)))"
      using unsent over by (simp add: updateTrafficStats_warns [OF read])
    then have flag: "WarningsSentThisMonth (Stats ?app')"
      using no_reset_flag(2) [OF nr] by simp
    have "filter (\<lambda>r. list_ex isWarningEffect (snd (snd r))) (updates ?app' ws) = []"
      if "\<forall>w' \<in> set ws. \<not> resets app w'"
    proof -
      from that have "\<forall>w' \<in> set ws. \<not> resets ?app' w'"
        by (simp add: no_reset_resets [OF nr])
      from updates_after_warning [OF flag this] show ?thesis by simp
    qed
    with flag show ?thesis by simp
  qed
  from set undelivered later show ?thesis by blast
qed

text \<open>
  Totals of 600 GiB and 450 GiB against 1000 GB, once with no bot and once with a bot
  whose every send fails: the flag is set, nothing is delivered, and with no bot a
  second call at 460 GiB sends no warning.
\<close>

theorem warning_consumed_without_delivery_witness:
  "\<not> WarningsSentThisMonth (Stats ((marchApp defaultConfig 0 0 0 0)\<lparr>Bot := None\<rparr>))
   \<and> \<not> After (Now (eth0World 644245094400 483183820800 marchNoon))
          (NextResetTime (Stats ((marchApp defaultConfig 0 0 0 0)\<lparr>Bot := None\<rparr>)))
   \<and> \<not> resets ((marchApp defaultConfig 0 0 0 0)\<lparr>Bot := None\<rparr>)
          (eth0World 644245094400 493921239040 marchNoon)
   \<and> WarningsSentThisMonth (Stats (fst (snd (updateTrafficStats
         ((marchApp defaultConfig 0 0 0 0)\<lparr>Bot := None\<rparr>)
         (eth0World 644245094400 483183820800 marchNoon)))))
   \<and> \<not> list_ex (\<lambda>e. isWarningEffect e \<and> isDelivered e) (snd (snd (updateTrafficStats
         ((marchApp defaultConfig 0 0 0 0)\<lparr>Bot := None\<rparr>)
         (eth0World 644245094400 483183820800 marchNoon))))
   \<and> filter (\<lambda>r. list_ex isWarningEffect (snd (snd r)))
        (updates (fst (snd (updateTrafficStats
                     ((marchApp defaultConfig 0 0 0 0)\<lparr>Bot := None\<rparr>)
                     (eth0World 644245094400 483183820800 marchNoon))))
           [eth0World 644245094400 493921239040 marchNoon]) = []
   \<and> WarningsSentThisMonth (Stats (fst (snd (updateTrafficStats
         (marchApp defaultConfig 0 0 0 0)
         ((eth0World 644245094400 483183820800 marchNoon)\<lparr>SendFails := \<lambda>p i. True\<rparr>)))))
   \<and> \<not> list_ex (\<lambda>e. isWarningEffect e \<and> isDelivered e) (snd (snd (updateTrafficStats
         (marchApp defaultConfig 0 0 0 0)
         ((eth0World 644245094400 483183820800 marchNoon)\<lparr>SendFails := \<lambda>p i. True\<rparr>))))"
proof -
  let ?nobot = "(marchApp defaultConfig 0 0 0 0)\<lparr>Bot := None\<rparr>"
  let ?app = "marchApp defaultConfig 0 0 0 0"
  let ?w = "eth0World 644245094400 483183820800 marchNoon"
  let ?w2 = "eth0World 644245094400 493921239040 marchNoon"
  let ?wf = "(eth0World 644245094400 483183820800 marchNoon)\<lparr>SendFails := \<lambda>p i. True\<rparr>"
  have nd: "\<not> After marchNoon april1"
    by (simp add: After_def marchNoon_def april1_def)
  have r1: "getCurrentTrafficBytes (IOCounters ?w) (NetworkInterface (Config ?nobot))
              = Inr (644245094400, 483183820800)"
    by (simp add: marchApp_def defaultConfig_def read_eth0World)
  have u1: "\<not> WarningsSentThisMonth (Stats ?nobot)"
    by (simp add: marchApp_def marchStats_def)
  have o1: "totalTraffic (TrafficMode (Config ?nobot))
              (BytesIn (accumulate (Stats ?nobot) 644245094400 483183820800))
              (BytesOut (accumulate (Stats ?nobot) 644245094400 483183820800))
            \<ge> uint64_of_float64 (WarningThresholdGB (Config ?nobot) * 1024 * 1024 * 1024)"
    by (simp add: accumulate_frame)
       (simp add: marchApp_def marchStats_def defaultConfig_def totalTraffic_def
          uint64_of_float64_def)
  have n1: "\<not> After (Now ?w) (NextResetTime (Stats ?nobot))"
    using nd by (simp add: eth0World_def marchApp_def marchStats_def)
  have s1: "\<forall>w' \<in> set [?w2]. \<not> resets ?nobot w'"
    using nd by (simp add: resets_def eth0World_def marchApp_def marchStats_def split: sum.splits)
  have b1: "Bot ?nobot = None"
    by simp
  have r2: "getCurrentTrafficBytes (IOCounters ?wf) (NetworkInterface (Config ?app))
              = Inr (644245094400, 483183820800)"
    by (simp add: marchApp_def defaultConfig_def getCurrentTrafficBytes_def eth0World_def)
  have u2: "\<not> WarningsSentThisMonth (Stats ?app)"
    by (simp add: marchApp_def marchStats_def)
  have o2: "totalTraffic (TrafficMode (Config ?app))
              (BytesIn (accumulate (Stats ?app) 644245094400 483183820800))
              (BytesOut (accumulate (Stats ?app) 644245094400 483183820800))
            \<ge> uint64_of_float64 (WarningThresholdGB (Config ?app) * 1024 * 1024 * 1024)"
    by (simp add: accumulate_frame)
       (simp add: marchApp_def marchStats_def defaultConfig_def totalTraffic_def
          uint64_of_float64_def)
  have n2: "\<not> After (Now ?wf) (NextResetTime (Stats ?app))"
    using nd by (simp add: eth0World_def marchApp_def marchStats_def)
  have f2: "\<forall>i. SendFails ?wf WarningPass i \<and> SendFails ?wf ShutdownPass i"
    by simp
  from warning_consumed_without_delivery [OF r1 u1 o1, of "[?w2]"] u1 n1 s1 b1
       warning_consumed_without_delivery [OF r2 u2 o2, of "[]"] n2 f2
  show ?thesis
    by simp
qed

section \<open>Totals over a run of ticks\<close>

text \<open>
  Claim C3. Take successive calls of \<open>updateTrafficStats\<close> whose reads all succeed and
  none of which finds the reset due. When the inbound raw samples never decrease,
  starting from the stored baseline, \<open>BytesIn\<close> after the calls is \<open>BytesIn\<close> before them
  plus the sum of the deltas of the samples, added in \<open>uint64\<close>; that sum is the last
  raw sample minus the baseline; the addition is exact whenever the result is below
  2^64; and when \<open>BytesIn\<close> starts at zero it ends as exactly the last raw sample minus
  the baseline. The same holds for \<open>BytesOut\<close> and the outbound
  samples.
\<close>

theorem totals_sum_of_deltas:
  assumes "map (\<lambda>w. getCurrentTrafficBytes (IOCounters w) (NetworkInterface (Config app))) ws
             = map Inr raws"
      and "\<forall>w \<in> set ws. \<not> After (Now w) (NextResetTime (Stats app))"
  shows "(sorted (LastBytesIn (Stats app) # map fst raws) \<longrightarrow>
            BytesIn (Stats (run app ws))
              = BytesIn (Stats app)
                + word_of_nat (sum_list (deltas (LastBytesIn (Stats app)) (map fst raws)))
          \<and> sum_list (deltas (LastBytesIn (Stats app)) (map fst raws))
              = unat (last (LastBytesIn (Stats app) # map fst raws)) - unat (LastBytesIn (Stats app))
          \<and> (unat (BytesIn (Stats app))
                + sum_list (deltas (LastBytesIn (Stats app)) (map fst raws)) < 2 ^ 64 \<longrightarrow>
                unat (BytesIn (Stats (run app ws)))
                  = unat (BytesIn (Stats app))
                    + sum_list (deltas (LastBytesIn (Stats app)) (map fst raws)))
          \<and> (BytesIn (Stats app) = 0 \<longrightarrow>
                unat (BytesIn (Stats (run app ws)))
                  = unat (last (LastBytesIn (Stats app) # map fst raws))
                    - unat (LastBytesIn (Stats app))))
       \<and> (sorted (LastBytesOut (Stats app) # map snd raws) \<longrightarrow>
            BytesOut (Stats (run app ws))
              = BytesOut (Stats app)
                + word_of_nat (sum_list (deltas (LastBytesOut (Stats app)) (map snd raws)))
          \<and> sum_list (deltas (LastBytesOut (Stats app)) (map snd raws))
              = unat (last (LastBytesOut (Stats app) # map snd raws)) - unat (LastBytesOut (Stats app))
          \<and> (unat (BytesOut (Stats app))
                + sum_list (deltas (LastBytesOut (Stats app)) (map snd raws)) < 2 ^ 64 \<longrightarrow>
                unat (BytesOut (Stats (run app ws)))
                  = unat (BytesOut (Stats app))
                    + sum_list (deltas (LastBytesOut (Stats app)) (map snd raws)))
          \<and> (BytesOut (Stats app) = 0 \<longrightarrow>
                unat (BytesOut (Stats (run app ws)))
                  = unat (last (LastBytesOut (Stats app) # map snd raws))
                    - unat (LastBytesOut (Stats app))))"
proof -
  note tot = run_totals [OF assms]
  have one: "t' = t + word_of_nat (sum_list (deltas b xs))
           \<and> sum_list (deltas b xs) = unat (last (b # xs)) - unat b
           \<and> (unat t + sum_list (deltas b xs) < 2 ^ 64 \<longrightarrow>
                unat t' = unat t + sum_list (deltas b xs))
           \<and> (t = 0 \<longrightarrow> unat t' = unat (last (b # xs)) - unat b)"
    if s: "sorted (b # xs)" and t': "t' = t + (last (b # xs) - b)" for t t' b :: uint64 and xs
  proof -
    have le: "b \<le> last (b # xs)" using s by (rule sorted_last_le)
    have sum: "sum_list (deltas b xs) = unat (last (b # xs)) - unat b"
      using s by (rule sum_list_deltas)
    have w: "word_of_nat (sum_list (deltas b xs)) = last (b # xs) - b"
      unfolding sum using le by (rule word_of_nat_difference)
    have d: "unat (last (b # xs) - b) = unat (last (b # xs)) - unat b"
      using le by (simp add: unat_sub)
    have exact: "unat t' = unat t + sum_list (deltas b xs)"
      if "unat t + sum_list (deltas b xs) < 2 ^ 64"
      using unat_plus_word_of_nat [OF that] w t' by simp
    from w d sum t' exact show ?thesis by simp
  qed
  from one [of "LastBytesIn (Stats app)" "map fst raws" "BytesIn (Stats (run app ws))" "BytesIn (Stats app)"]
       one [of "LastBytesOut (Stats app)" "map snd raws" "BytesOut (Stats (run app ws))" "BytesOut (Stats app)"]
       tot
  show ?thesis by blast
qed

text \<open>
  Baselines 40 and 10, then the samples (100, 10), (250, 10) and (1000, 500): the totals
  end at 960 and 490.
\<close>

theorem totals_sum_of_deltas_witness:
  "sorted [40, 100, 250, 1000 :: uint64]
   \<and> sorted [10, 10, 10, 500 :: uint64]
   \<and> deltas 40 [100, 250, 1000] = [60, 150, 750]
   \<and> deltas 10 [10, 10, 500] = [0, 0, 490]
   \<and> BytesIn (Stats (run (marchApp defaultConfig 0 0 40 10)
        [eth0World 100 10 marchNoon, eth0World 250 10 marchNoon, eth0World 1000 500 marchNoon]))
      = 960
   \<and> BytesOut (Stats (run (marchApp defaultConfig 0 0 40 10)
        [eth0World 100 10 marchNoon, eth0World 250 10 marchNoon, eth0World 1000 500 marchNoon]))
      = 490"
proof -
  let ?app = "marchApp defaultConfig 0 0 40 10"
  let ?ws = "[eth0World 100 10 marchNoon, eth0World 250 10 marchNoon, eth0World 1000 500 marchNoon]"
  have reads: "map (\<lambda>w. getCurrentTrafficBytes (IOCounters w) (NetworkInterface (Config ?app))) ?ws
                 = map Inr [(100, 10), (250, 10), (1000, 500)]"
    by (simp add: marchApp_def defaultConfig_def read_eth0World)
  have nd: "\<not> After marchNoon april1"
    by (simp add: After_def marchNoon_def april1_def)
  have nds: "\<forall>w \<in> set ?ws. \<not> After (Now w) (NextResetTime (Stats ?app))"
    using nd by (simp add: eth0World_def marchApp_def marchStats_def)
  have st: "Stats ?app = marchStats 0 0 40 10"
    by (simp add: marchApp_def)
  have si: "sorted [40, 100, 250, 1000 :: uint64]" and so: "sorted [10, 10, 10, 500 :: uint64]"
    by simp_all
  from totals_sum_of_deltas [OF reads nds] si so show ?thesis
    by (simp add: st marchStats_def)
qed

section \<open>The monthly reset\<close>




section \<open>The baseline at a reset\<close>

text \<open>
  Claim C8. A call of \<open>updateTrafficStats\<close> that resets leaves \<open>LastBytesIn\<close> and
  \<open>LastBytesOut\<close> as the update of the totals set them earlier in the same call, that
  is, at the counters the call read. A reset by \<open>loadOrInitStats\<close> sets them to the
  counters it reads, not to the loaded ones. In every other field the two resets do the
  same: the month of now, \<open>LastResetTime\<close> now, \<open>NextResetTime\<close> from
  \<open>getNextResetTime\<close>, totals 0, flag false; and both send the monthly report.
\<close>

theorem reset_baselines:
  assumes tr: "getCurrentTrafficBytes (IOCounters w) (NetworkInterface (Config app)) = Inr (ri, ro)"
      and td: "After (Now w) (NextResetTime (Stats app))"
      and lf: "StatsFile w' = Contents (Some loaded)"
      and ld: "After (Now w') (NextResetTime loaded)"
      and lr: "getCurrentTrafficBytes (IOCounters w') (NetworkInterface (Config app')) = Inr (bi, bo)"
  shows "LastBytesIn (Stats (fst (snd (updateTrafficStats app w))))
           = LastBytesIn (accumulate (Stats app) ri ro)
       \<and> LastBytesOut (Stats (fst (snd (updateTrafficStats app w))))
           = LastBytesOut (accumulate (Stats app) ri ro)
       \<and> Stats (fst (snd (updateTrafficStats app w))) =
           \<lparr>CurrentMonth = Format_2006_01 (Now w), LastResetTime = Now w,
            NextResetTime = getNextResetTime (Now w) (MonthlyResetDay (Config app)),
            BytesIn = 0, BytesOut = 0, LastBytesIn = ri, LastBytesOut = ro,
            WarningsSentThisMonth = False\<rparr>
       \<and> Stats (fst (snd (loadOrInitStats app' w'))) =
           \<lparr>CurrentMonth = Format_2006_01 (Now w'), LastResetTime = Now w',
            NextResetTime = getNextResetTime (Now w') (MonthlyResetDay (Config app')),
            BytesIn = 0, BytesOut = 0, LastBytesIn = bi, LastBytesOut = bo,
            WarningsSentThisMonth = False\<rparr>
       \<and> list_ex isReportEffect (snd (snd (updateTrafficStats app w)))
       \<and> list_ex isReportEffect (snd (snd (loadOrInitStats app' w')))"
proof -
  have rep: "list_ex isReportEffect (snd (snd (loadOrInitStats app' w')))"
  proof -
    have "list_ex isReportEffect (sendMonthlyReport (app'\<lparr>Stats := loaded\<rparr>) w')"
      using sendMonthlyReport_logs [of "app'\<lparr>Stats := loaded\<rparr>" w'] by (simp add: list_ex_iff)
    then show ?thesis
      by (subst loadOrInitStats_due_ok(2) [OF lf ld lr]) (simp add: list_ex_append)
  qed
  have tick: "Stats (fst (snd (updateTrafficStats app w))) =
           \<lparr>CurrentMonth = Format_2006_01 (Now w), LastResetTime = Now w,
            NextResetTime = getNextResetTime (Now w) (MonthlyResetDay (Config app)),
            BytesIn = 0, BytesOut = 0, LastBytesIn = ri, LastBytesOut = ro,
            WarningsSentThisMonth = False\<rparr>"
    by (simp add: updateTrafficStats_due(1) [OF tr td])
  have load: "Stats (fst (snd (loadOrInitStats app' w'))) =
           \<lparr>CurrentMonth = Format_2006_01 (Now w'), LastResetTime = Now w',
            NextResetTime = getNextResetTime (Now w') (MonthlyResetDay (Config app')),
            BytesIn = 0, BytesOut = 0, LastBytesIn = bi, LastBytesOut = bo,
            WarningsSentThisMonth = False\<rparr>"
    by (simp add: loadOrInitStats_due_ok(1) [OF lf ld lr])
  from tick load rep updateTrafficStats_due(2) [OF tr td] show ?thesis
    by (simp add: accumulate_frame)
qed

text \<open>
  Loaded baselines 30 and 40. The tick reads 100 and 200 and keeps them as baselines;
  the start-up reads 500 and 600 and takes those; the other fields agree.
\<close>

theorem reset_baselines_witness:
  "LastBytesIn (Stats (fst (snd (updateTrafficStats (marchApp defaultConfig 10 20 30 40)
                                   (eth0World 100 200 lastOf2025))))) = 100
   \<and> LastBytesOut (Stats (fst (snd (updateTrafficStats (marchApp defaultConfig 10 20 30 40)
                                   (eth0World 100 200 lastOf2025))))) = 200
   \<and> LastBytesIn (marchStats 10 20 30 40) = 30
   \<and> LastBytesOut (marchStats 10 20 30 40) = 40
   \<and> LastBytesIn (Stats (fst (snd (loadOrInitStats (marchApp defaultConfig 0 0 0 0)
         ((eth0World 500 600 lastOf2025)
            \<lparr>StatsFile := Contents (Some (marchStats 10 20 30 40))\<rparr>))))) = 500
   \<and> LastBytesOut (Stats (fst (snd (loadOrInitStats (marchApp defaultConfig 0 0 0 0)
         ((eth0World 500 600 lastOf2025)
            \<lparr>StatsFile := Contents (Some (marchStats 10 20 30 40))\<rparr>))))) = 600
   \<and> Stats (fst (snd (loadOrInitStats (marchApp defaultConfig 0 0 0 0)
         ((eth0World 500 600 lastOf2025)
            \<lparr>StatsFile := Contents (Some (marchStats 10 20 30 40))\<rparr>))))
       = (Stats (fst (snd (updateTrafficStats (marchApp defaultConfig 10 20 30 40)
                             (eth0World 100 200 lastOf2025)))))
           \<lparr>LastBytesIn := 500, LastBytesOut := 600\<rparr>"
proof -
  let ?app = "marchApp defaultConfig 10 20 30 40"
  let ?init = "marchApp defaultConfig 0 0 0 0"
  let ?w = "eth0World 100 200 lastOf2025"
  let ?l = "(eth0World 500 600 lastOf2025)\<lparr>StatsFile := Contents (Some (marchStats 10 20 30 40))\<rparr>"
  have due: "After lastOf2025 april1"
    by (simp add: After_def lastOf2025_def april1_def)
  have tr: "getCurrentTrafficBytes (IOCounters ?w) (NetworkInterface (Config ?app)) = Inr (100, 200)"
    by (simp add: marchApp_def defaultConfig_def read_eth0World)
  have td: "After (Now ?w) (NextResetTime (Stats ?app))"
    using due by (simp add: eth0World_def marchApp_def marchStats_def)
  have lf: "StatsFile ?l = Contents (Some (marchStats 10 20 30 40))"
    by simp
  have ld: "After (Now ?l) (NextResetTime (marchStats 10 20 30 40))"
    using due by (simp add: eth0World_def marchStats_def)
  have lr: "getCurrentTrafficBytes (IOCounters ?l) (NetworkInterface (Config ?init)) = Inr (500, 600)"
    by (simp add: getCurrentTrafficBytes_def eth0World_def marchApp_def defaultConfig_def)
  have same: "Now ?l = Now ?w" "Config ?init = Config ?app"
    by (simp_all add: eth0World_def marchApp_def)
  from reset_baselines [OF tr td lf ld lr] same show ?thesis
    by (simp add: marchStats_def)
qed

end
